theory Spec2Isabelle
  imports Main "HOL-Library.Sublist" "HOL-Library.AList" "HOL-Library.Word"
begin

section \<open>Python values\<close>

text \<open>
  Event payloads, request bodies, state snapshots and backup files are JSON values; on the
  Python side they are \<open>None\<close>, \<open>bool\<close>, \<open>int\<close>, \<open>str\<close>, \<open>list\<close> and \<open>dict\<close> objects.
  A dict is an association list: lookups take the first binding of a key, and the
  insertion order is kept, as Python keeps it.
\<close>

datatype json =
    JNull
  | JBool bool
  | JInt int
  | JStr string
  | JList "json list"
  | JDict "(string \<times> json) list"

text \<open>
  Exceptions are values. \<open>PlanningPokerException\<close> (gamestate/exceptions.py) carries the
  attribute \<open>code\<close> and its text; every other exception class is represented by its class
  and the text \<open>str(e)\<close> gives.
\<close>

datatype exn =
    PlanningPokerException json string
  | KeyError string
  | TypeError string
  | ValueError string
  | IndexError string
  | OtherError string string

section \<open>Python string operations\<close>

text \<open>\<open>s.find(sep)\<close>: the index of the first occurrence of \<open>sep\<close> in \<open>s\<close>, if any.\<close>

fun str_find :: "string \<Rightarrow> string \<Rightarrow> nat option" where
  "str_find sep [] = (if sep = [] then Some 0 else None)"
| "str_find sep (c # cs) =
     (if prefix sep (c # cs) then Some 0 else map_option Suc (str_find sep cs))"


text \<open>
  \<open>s.split(sep)\<close> cuts at every occurrence of \<open>sep\<close>, found from left to right without
  overlap. Python raises \<open>ValueError\<close> for an empty separator.
\<close>

function str_split :: "string \<Rightarrow> string \<Rightarrow> exn + string list" where
  "str_split sep s =
     (if sep = [] then Inl (ValueError ''empty separator'')
      else case str_find sep s of
        None \<Rightarrow> Inr [s]
      | Some i \<Rightarrow>
          (case str_split sep (drop (i + length sep) s) of
             Inl e \<Rightarrow> Inl e
           | Inr ps \<Rightarrow> Inr (take i s # ps)))"
  by pat_completeness auto
termination
proof (relation "measure (\<lambda>(sep, s). length s)")
  show "wf (measure (\<lambda>(sep, s). length s))" by simp
next
  fix sep s :: string and i :: nat
  assume sep: "sep \<noteq> []" and found: "str_find sep s = Some i"
  have bound: "str_find sep t = Some j \<Longrightarrow> j \<le> length t" for t j
    by (induction t arbitrary: j) (auto split: if_splits)
  from found have "i \<le> length s" by (rule bound)
  moreover from found sep have "s \<noteq> []" by (cases s) auto
  ultimately show "((sep, drop (i + length sep) s), (sep, s)) \<in> measure (\<lambda>(sep, s). length s)"
    using sep by (cases s) auto
qed

declare str_split.simps [simp del]




section \<open>check\_database\_config.py: the environment display\<close>











section \<open>flask/app.py: the transport layer\<close>

subsection \<open>Subscripts and identifiers\<close>

text \<open>
  \<open>data[key]\<close> with a string key: a dict gives the value or raises \<open>KeyError\<close>; every other
  JSON value raises \<open>TypeError\<close> (a list and a string want integer indices, the others are
  not subscriptable).
\<close>

fun py_getitem :: "json \<Rightarrow> string \<Rightarrow> exn + json" where
  "py_getitem (JDict kvs) k =
     (case map_of kvs k of None \<Rightarrow> Inl (KeyError k) | Some v \<Rightarrow> Inr v)"
| "py_getitem (JList xs) k = Inl (TypeError ''list indices must be integers or slices, not str'')"
| "py_getitem (JStr s) k = Inl (TypeError ''string indices must be integers'')"
| "py_getitem JNull k = Inl (TypeError ''object is not subscriptable'')"
| "py_getitem (JBool b) k = Inl (TypeError ''object is not subscriptable'')"
| "py_getitem (JInt i) k = Inl (TypeError ''object is not subscriptable'')"

text \<open>
  A UUID is its 128-bit integer. \<open>str(u)\<close> is \<open>'%032x' % u.int\<close> cut into groups of
  8, 4, 4, 4 and 12 digits joined by hyphens.
\<close>

type_synonym uuid = "128 word"

definition hex_digit :: "nat \<Rightarrow> char" where
  "hex_digit d = ''0123456789abcdef'' ! d"

fun to_hex :: "nat \<Rightarrow> nat \<Rightarrow> string" where
  "to_hex 0 n = []"
| "to_hex (Suc k) n = to_hex k (n div 16) @ [hex_digit (n mod 16)]"

definition uuid_hex :: "uuid \<Rightarrow> string" where
  "uuid_hex u = to_hex 32 (unat u)"

definition uuid_str :: "uuid \<Rightarrow> string" where
  "uuid_str u =
     (let h = uuid_hex u
      in take 8 h @ ''-'' @ take 4 (drop 8 h) @ ''-'' @ take 4 (drop 12 h) @ ''-'' @
         take 4 (drop 16 h) @ ''-'' @ drop 20 h)"

subsection \<open>The server state\<close>

text \<open>
  What the handlers read and write: the Flask session of each connection (a dict), the
  Socket.IO rooms (the set of connections in each room), the \<open>GameManager\<close> instance
  \<open>gm\<close>, the messages emitted so far, and the random source behind \<open>uuid.uuid4()\<close>:
  \<open>entropy\<close> is the sequence of values it returns and \<open>uuid_calls\<close> counts the calls.
  An emission keeps the connections that were in its room when it was sent.
\<close>

type_synonym sid = string

record emission =
  em_event :: string
  em_payload :: "json option"
  em_room :: json
  em_recipients :: "sid set"

record 'g server =
  sessions :: "sid \<Rightarrow> (string \<rightharpoonup> json)"
  rooms :: "json \<Rightarrow> sid set"
  gm :: 'g
  outbox :: "emission list"
  entropy :: "nat \<Rightarrow> uuid"
  uuid_calls :: nat

text \<open>
  The \<open>GameManager\<close> class (gamestate/game\_manager.py) is a parameter of the handlers: each
  method takes the manager's state and gives the value it returns, or the exception it
  raises, with the state it leaves behind. \<open>join_game\<close> returns a pair of an info dict and
  a state snapshot, \<open>set_deck\<close> a pair of info and state, \<open>reveal_cards\<close> and \<open>end_turn\<close>
  a pair of state and info.
\<close>

record 'g game_manager =
  gm_create :: "json \<Rightarrow> json \<Rightarrow> 'g \<Rightarrow> (exn + json) \<times> 'g"
  gm_join_game :: "json \<Rightarrow> json \<Rightarrow> json \<Rightarrow> json \<Rightarrow> 'g \<Rightarrow> (exn + (string \<times> json) list \<times> json) \<times> 'g"
  gm_leave_game :: "json \<Rightarrow> json \<Rightarrow> 'g \<Rightarrow> (exn + json) \<times> 'g"
  gm_rename_game :: "json \<Rightarrow> json \<Rightarrow> 'g \<Rightarrow> (exn + json) \<times> 'g"
  gm_set_deck :: "json \<Rightarrow> json \<Rightarrow> 'g \<Rightarrow> (exn + json \<times> json) \<times> 'g"
  gm_set_player_name :: "json \<Rightarrow> json \<Rightarrow> json \<Rightarrow> 'g \<Rightarrow> (exn + json) \<times> 'g"
  gm_set_player_spectator :: "json \<Rightarrow> json \<Rightarrow> json \<Rightarrow> 'g \<Rightarrow> (exn + json) \<times> 'g"
  gm_pick_card :: "json \<Rightarrow> json \<Rightarrow> json \<Rightarrow> 'g \<Rightarrow> (exn + json) \<times> 'g"
  gm_reveal_cards :: "json \<Rightarrow> 'g \<Rightarrow> (exn + json \<times> json) \<times> 'g"
  gm_end_turn :: "json \<Rightarrow> 'g \<Rightarrow> (exn + json \<times> json) \<times> 'g"

subsection \<open>Statements of a handler\<close>

text \<open>
  A handler is a sequence of statements over the server state; a statement that raises
  ends the handler and keeps the state reached so far.
\<close>

type_synonym ('g, 'a) stmt = "'g server \<Rightarrow> (exn + 'a) \<times> 'g server"

definition bind :: "('g, 'a) stmt \<Rightarrow> ('a \<Rightarrow> ('g, 'b) stmt) \<Rightarrow> ('g, 'b) stmt" where
  "bind m f st = (case m st of (Inl e, st') \<Rightarrow> (Inl e, st') | (Inr a, st') \<Rightarrow> f a st')"

definition ret :: "'a \<Rightarrow> ('g, 'a) stmt" where
  "ret a st = (Inr a, st)"

definition getitem :: "json \<Rightarrow> string \<Rightarrow> ('g, json) stmt" where
  "getitem d k st = (py_getitem d k, st)"

definition session_get :: "sid \<Rightarrow> string \<Rightarrow> ('g, json) stmt" where
  "session_get sid k st =
     (case sessions st sid k of None \<Rightarrow> (Inl (KeyError k), st) | Some v \<Rightarrow> (Inr v, st))"

definition session_set :: "sid \<Rightarrow> string \<Rightarrow> json \<Rightarrow> ('g, unit) stmt" where
  "session_set sid k v st =
     (Inr (), st\<lparr>sessions := (sessions st)(sid := (sessions st sid)(k \<mapsto> v))\<rparr>)"

definition join_room :: "sid \<Rightarrow> json \<Rightarrow> ('g, unit) stmt" where
  "join_room sid room st = (Inr (), st\<lparr>rooms := (rooms st)(room := insert sid (rooms st room))\<rparr>)"

definition leave_room :: "sid \<Rightarrow> json \<Rightarrow> ('g, unit) stmt" where
  "leave_room sid room st = (Inr (), st\<lparr>rooms := (rooms st)(room := rooms st room - {sid})\<rparr>)"

text \<open>\<open>emit(event, payload, to=room)\<close>: one message to every connection in the room.\<close>

definition emit :: "string \<Rightarrow> json option \<Rightarrow> json \<Rightarrow> ('g, unit) stmt" where
  "emit ev payload room st =
     (Inr (), st\<lparr>outbox := outbox st @
        [\<lparr>em_event = ev, em_payload = payload, em_room = room,
          em_recipients = rooms st room\<rparr>]\<rparr>)"

definition uuid4 :: "('g, uuid) stmt" where
  "uuid4 st = (Inr (entropy st (uuid_calls st)), st\<lparr>uuid_calls := Suc (uuid_calls st)\<rparr>)"

definition call_gm :: "('g \<Rightarrow> (exn + 'a) \<times> 'g) \<Rightarrow> ('g, 'a) stmt" where
  "call_gm f st = (case f (gm st) of (r, g') \<Rightarrow> (r, st\<lparr>gm := g'\<rparr>))"

subsection \<open>The handlers\<close>


definition join :: "'g game_manager \<Rightarrow> sid \<Rightarrow> json \<Rightarrow> ('g, json) stmt" where
  "join G sid data =
     bind uuid4 (\<lambda>u.
     let player_id = JStr (uuid_str u) in
     bind (session_set sid ''player_id'' player_id) (\<lambda>_.
     bind (getitem data ''name'') (\<lambda>player_name.
     bind (getitem data ''spectator'') (\<lambda>spectator.
     bind (getitem data ''game'') (\<lambda>game_id.
     bind (session_set sid ''game_id'' game_id) (\<lambda>_.
     bind (join_room sid game_id) (\<lambda>_.
     bind (call_gm (gm_join_game G game_id player_id player_name spectator)) (\<lambda>(info, state).
     bind (emit ''state'' (Some state) game_id) (\<lambda>_.
     ret (JDict (AList.update ''playerId'' player_id info)))))))))))"

definition disconnect :: "'g game_manager \<Rightarrow> sid \<Rightarrow> ('g, json) stmt" where
  "disconnect G sid =
     bind (session_get sid ''player_id'') (\<lambda>player_id.
     bind (session_get sid ''game_id'') (\<lambda>game_id.
     bind (call_gm (gm_leave_game G game_id player_id)) (\<lambda>state.
     bind (leave_room sid game_id) (\<lambda>_.
     bind (emit ''state'' (Some state) game_id) (\<lambda>_.
     bind (session_set sid ''player_id'' JNull) (\<lambda>_.
     bind (session_set sid ''game_id'' JNull) (\<lambda>_.
     ret JNull)))))))"

definition rename_game :: "'g game_manager \<Rightarrow> sid \<Rightarrow> json \<Rightarrow> ('g, json) stmt" where
  "rename_game G sid data =
     bind (session_get sid ''game_id'') (\<lambda>game_id.
     bind (getitem data ''name'') (\<lambda>game_name.
     bind (call_gm (gm_rename_game G game_id game_name)) (\<lambda>info.
     bind (emit ''info'' (Some info) game_id) (\<lambda>_.
     ret JNull))))"

definition set_deck :: "'g game_manager \<Rightarrow> sid \<Rightarrow> json \<Rightarrow> ('g, json) stmt" where
  "set_deck G sid data =
     bind (session_get sid ''game_id'') (\<lambda>game_id.
     bind (getitem data ''deck'') (\<lambda>deck_name.
     bind (call_gm (gm_set_deck G game_id deck_name)) (\<lambda>(info, state).
     bind (emit ''info'' (Some info) game_id) (\<lambda>_.
     bind (emit ''state'' (Some state) game_id) (\<lambda>_.
     ret JNull)))))"

definition set_player_name :: "'g game_manager \<Rightarrow> sid \<Rightarrow> json \<Rightarrow> ('g, json) stmt" where
  "set_player_name G sid data =
     bind (session_get sid ''player_id'') (\<lambda>player_id.
     bind (session_get sid ''game_id'') (\<lambda>game_id.
     bind (getitem data ''name'') (\<lambda>player_name.
     bind (call_gm (gm_set_player_name G game_id player_id player_name)) (\<lambda>state.
     bind (emit ''state'' (Some state) game_id) (\<lambda>_.
     ret JNull)))))"

definition set_spectator :: "'g game_manager \<Rightarrow> sid \<Rightarrow> json \<Rightarrow> ('g, json) stmt" where
  "set_spectator G sid data =
     bind (session_get sid ''player_id'') (\<lambda>player_id.
     bind (session_get sid ''game_id'') (\<lambda>game_id.
     bind (getitem data ''spectator'') (\<lambda>is_spectator.
     bind (call_gm (gm_set_player_spectator G game_id player_id is_spectator)) (\<lambda>state.
     bind (emit ''state'' (Some state) game_id) (\<lambda>_.
     ret JNull)))))"

definition pick_card :: "'g game_manager \<Rightarrow> sid \<Rightarrow> json \<Rightarrow> ('g, json) stmt" where
  "pick_card G sid data =
     bind (session_get sid ''player_id'') (\<lambda>player_id.
     bind (session_get sid ''game_id'') (\<lambda>game_id.
     bind (getitem data ''card'') (\<lambda>card.
     bind (call_gm (gm_pick_card G game_id player_id card)) (\<lambda>state.
     bind (emit ''state'' (Some state) game_id) (\<lambda>_.
     ret JNull)))))"

definition reveal_cards :: "'g game_manager \<Rightarrow> sid \<Rightarrow> ('g, json) stmt" where
  "reveal_cards G sid =
     bind (session_get sid ''game_id'') (\<lambda>game_id.
     bind (call_gm (gm_reveal_cards G game_id)) (\<lambda>(state, info).
     bind (emit ''state'' (Some state) game_id) (\<lambda>_.
     bind (emit ''info'' (Some info) game_id) (\<lambda>_.
     ret JNull))))"

definition end_turn :: "'g game_manager \<Rightarrow> sid \<Rightarrow> ('g, json) stmt" where
  "end_turn G sid =
     bind (session_get sid ''game_id'') (\<lambda>game_id.
     bind (call_gm (gm_end_turn G game_id)) (\<lambda>(state, info).
     bind (emit ''state'' (Some state) game_id) (\<lambda>_.
     bind (emit ''info'' (Some info) game_id) (\<lambda>_.
     bind (emit ''new_game'' None game_id) (\<lambda>_.
     ret JNull)))))"

text \<open>
  \<open>str(e)\<close>. A \<open>KeyError\<close> prints the repr of its key, which for the keys of this program
  (no quote, no backslash, printable ASCII) is the key between single quotes.
\<close>

fun str_exn :: "exn \<Rightarrow> string" where
  "str_exn (PlanningPokerException c m) = m"
| "str_exn (KeyError k) = [CHR 0x27] @ k @ [CHR 0x27]"
| "str_exn (TypeError m) = m"
| "str_exn (ValueError m) = m"
| "str_exn (IndexError m) = m"
| "str_exn (OtherError cls m) = m"

fun is_PlanningPokerException :: "exn \<Rightarrow> bool" where
  "is_PlanningPokerException (PlanningPokerException c m) = True"
| "is_PlanningPokerException _ = False"

fun exn_code :: "exn \<Rightarrow> json" where
  "exn_code (PlanningPokerException c m) = c"
| "exn_code _ = JNull"

definition on_error_handler :: "exn \<Rightarrow> json" where
  "on_error_handler e =
     (let body = [(''error'', JBool True), (''message'', JStr (str_exn e)), (''code'', JInt 0)];
          body = (if is_PlanningPokerException e
                  then AList.update ''code'' (exn_code e) body else body)
      in JDict body)"

subsection \<open>Events\<close>

text \<open>
  The Socket.IO events of the application, one per \<open>@socketio.event\<close>. \<open>handler\<close> picks
  the function registered for an event; \<open>dispatch\<close> is what the server does with one
  inbound event of connection \<open>sid\<close>: it runs the handler, and the value the handler
  returns goes back to that connection as the acknowledgement. When the handler raises,
  the function registered with \<open>@socketio.on_error()\<close> is called with the exception and its
  return value is the acknowledgement.
\<close>

datatype event =
    Join json
  | Disconnect
  | RenameGame json
  | SetDeck json
  | SetPlayerName json
  | SetSpectator json
  | PickCard json
  | RevealCards
  | EndTurn

fun handler :: "'g game_manager \<Rightarrow> sid \<Rightarrow> event \<Rightarrow> ('g, json) stmt" where
  "handler G sid (Join data) = join G sid data"
| "handler G sid Disconnect = disconnect G sid"
| "handler G sid (RenameGame data) = rename_game G sid data"
| "handler G sid (SetDeck data) = set_deck G sid data"
| "handler G sid (SetPlayerName data) = set_player_name G sid data"
| "handler G sid (SetSpectator data) = set_spectator G sid data"
| "handler G sid (PickCard data) = pick_card G sid data"
| "handler G sid RevealCards = reveal_cards G sid"
| "handler G sid EndTurn = end_turn G sid"

definition dispatch :: "'g game_manager \<Rightarrow> sid \<Rightarrow> event \<Rightarrow> 'g server \<Rightarrow> json \<times> 'g server" where
  "dispatch G sid ev st =
     (case handler G sid ev st of
        (Inl e, st') \<Rightarrow> (on_error_handler e, st')
      | (Inr r, st') \<Rightarrow> (r, st'))"




text \<open>The messages emitted between two states of the server.\<close>

definition emitted :: "'g server \<Rightarrow> 'g server \<Rightarrow> emission list" where
  "emitted st st' = drop (length (outbox st)) (outbox st')"

text \<open>The participant id an acknowledgement carries, if it carries one.\<close>

definition ack_id :: "json \<Rightarrow> json option" where
  "ack_id ack = (case py_getitem ack ''playerId'' of Inl e \<Rightarrow> None | Inr p \<Rightarrow> Some p)"

subsection \<open>Concrete inputs\<close>

text \<open>The server before the first event: no session data, empty rooms, nothing emitted.\<close>

definition initial :: "'g \<Rightarrow> (nat \<Rightarrow> uuid) \<Rightarrow> 'g server" where
  "initial g ent =
     \<lparr>sessions = (\<lambda>sid. Map.empty), rooms = (\<lambda>room. {}), gm = g, outbox = [],
      entropy = ent, uuid_calls = 0\<rparr>"

text \<open>
  Modelled from the spec: gamestate/game\_manager.py is not under src/. A session registry
  after sections 3, 4.2 and 4.3 of the specification, small enough to run the handlers on
  concrete events: a session has a name, a deck, a roster, the reveal flag and the turn
  counter; an unknown session or participant is \<open>NotFound\<close>. The info payload is the
  name and the deck of the session. The theorems about the handlers hold for every game
  manager; this one only instantiates them.
\<close>

record participant =
  p_id :: json
  display_name :: json
  is_spectator :: json
  current_pick :: "json option"

record live_session =
  s_name :: json
  s_deck :: json
  roster :: "participant list"
  revealed :: bool
  turn :: int

record registry =
  live :: "(json \<times> live_session) list"
  created :: nat

definition not_found :: exn where
  "not_found = PlanningPokerException (JInt 1) ''not found''"

definition participant_view :: "bool \<Rightarrow> participant \<Rightarrow> json" where
  "participant_view shown p =
     JDict ([(''id'', p_id p), (''displayName'', display_name p),
             (''isSpectator'', is_spectator p),
             (''hasPicked'', JBool (current_pick p \<noteq> None))] @
            (case current_pick p of
               Some c \<Rightarrow> if shown then [(''pick'', c)] else []
             | None \<Rightarrow> []))"

definition snapshot :: "json \<Rightarrow> live_session \<Rightarrow> json" where
  "snapshot gid s =
     JDict [(''sessionId'', gid), (''name'', s_name s), (''deck'', s_deck s),
            (''revealed'', JBool (revealed s)), (''turn'', JInt (turn s)),
            (''participants'', JList (map (participant_view (revealed s)) (roster s)))]"

definition session_info :: "live_session \<Rightarrow> (string \<times> json) list" where
  "session_info s = [(''name'', s_name s), (''deck'', s_deck s)]"

text \<open>One operation on the session \<open>gid\<close>: look it up, change it, store it.\<close>

definition on_session ::
  "json \<Rightarrow> (live_session \<Rightarrow> exn + live_session) \<Rightarrow> (live_session \<Rightarrow> 'a) \<Rightarrow>
   registry \<Rightarrow> (exn + 'a) \<times> registry" where
  "on_session gid f out reg =
     (case map_of (live reg) gid of
        None \<Rightarrow> (Inl not_found, reg)
      | Some s \<Rightarrow>
          (case f s of
             Inl e \<Rightarrow> (Inl e, reg)
           | Inr s' \<Rightarrow> (Inr (out s'), reg\<lparr>live := AList.update gid s' (live reg)\<rparr>)))"

definition on_participant ::
  "json \<Rightarrow> (participant \<Rightarrow> participant) \<Rightarrow> live_session \<Rightarrow> exn + live_session" where
  "on_participant pid f s =
     (if pid \<in> p_id ` set (roster s)
      then Inr (s\<lparr>roster := map (\<lambda>p. if p_id p = pid then f p else p) (roster s)\<rparr>)
      else Inl not_found)"

definition new_round :: "live_session \<Rightarrow> live_session" where
  "new_round s =
     s\<lparr>roster := map (\<lambda>p. p\<lparr>current_pick := None\<rparr>) (roster s), revealed := False\<rparr>"

definition reg_create :: "json \<Rightarrow> json \<Rightarrow> registry \<Rightarrow> (exn + json) \<times> registry" where
  "reg_create name deck reg =
     (let gid = JStr (uuid_str (of_nat (Suc (created reg))));
          s = \<lparr>s_name = name, s_deck = deck, roster = [], revealed = False, turn = 0\<rparr>
      in (Inr gid, reg\<lparr>live := AList.update gid s (live reg), created := Suc (created reg)\<rparr>))"

definition reg_join_game ::
  "json \<Rightarrow> json \<Rightarrow> json \<Rightarrow> json \<Rightarrow> registry \<Rightarrow> (exn + (string \<times> json) list \<times> json) \<times> registry" where
  "reg_join_game gid pid name spectator =
     on_session gid
       (\<lambda>s. Inr (s\<lparr>roster := roster s @
          [\<lparr>p_id = pid, display_name = name, is_spectator = spectator,
            current_pick = None\<rparr>]\<rparr>))
       (\<lambda>s. (session_info s, snapshot gid s))"

definition reg_leave_game :: "json \<Rightarrow> json \<Rightarrow> registry \<Rightarrow> (exn + json) \<times> registry" where
  "reg_leave_game gid pid =
     on_session gid
       (\<lambda>s. Inr (s\<lparr>roster := filter (\<lambda>p. p_id p \<noteq> pid) (roster s)\<rparr>))
       (snapshot gid)"

definition reg_rename_game :: "json \<Rightarrow> json \<Rightarrow> registry \<Rightarrow> (exn + json) \<times> registry" where
  "reg_rename_game gid name =
     on_session gid (\<lambda>s. Inr (s\<lparr>s_name := name\<rparr>)) (\<lambda>s. JDict (session_info s))"

definition reg_set_deck :: "json \<Rightarrow> json \<Rightarrow> registry \<Rightarrow> (exn + json \<times> json) \<times> registry" where
  "reg_set_deck gid deck =
     on_session gid (\<lambda>s. Inr (new_round (s\<lparr>s_deck := deck\<rparr>)))
       (\<lambda>s. (JDict (session_info s), snapshot gid s))"

definition reg_set_player_name ::
  "json \<Rightarrow> json \<Rightarrow> json \<Rightarrow> registry \<Rightarrow> (exn + json) \<times> registry" where
  "reg_set_player_name gid pid name =
     on_session gid (on_participant pid (\<lambda>p. p\<lparr>display_name := name\<rparr>)) (snapshot gid)"

definition reg_set_player_spectator ::
  "json \<Rightarrow> json \<Rightarrow> json \<Rightarrow> registry \<Rightarrow> (exn + json) \<times> registry" where
  "reg_set_player_spectator gid pid spectator =
     on_session gid (on_participant pid (\<lambda>p. p\<lparr>is_spectator := spectator\<rparr>)) (snapshot gid)"

definition reg_pick_card ::
  "json \<Rightarrow> json \<Rightarrow> json \<Rightarrow> registry \<Rightarrow> (exn + json) \<times> registry" where
  "reg_pick_card gid pid picked =
     on_session gid (on_participant pid (\<lambda>p. p\<lparr>current_pick := Some picked\<rparr>)) (snapshot gid)"

definition reg_reveal_cards :: "json \<Rightarrow> registry \<Rightarrow> (exn + json \<times> json) \<times> registry" where
  "reg_reveal_cards gid =
     on_session gid (\<lambda>s. Inr (s\<lparr>revealed := True\<rparr>))
       (\<lambda>s. (snapshot gid s, JDict (session_info s)))"

definition reg_end_turn :: "json \<Rightarrow> registry \<Rightarrow> (exn + json \<times> json) \<times> registry" where
  "reg_end_turn gid =
     on_session gid (\<lambda>s. Inr (new_round (s\<lparr>turn := turn s + 1\<rparr>)))
       (\<lambda>s. (snapshot gid s, JDict (session_info s)))"

definition registry_gm :: "registry game_manager" where
  "registry_gm =
     \<lparr>gm_create = reg_create, gm_join_game = reg_join_game, gm_leave_game = reg_leave_game,
      gm_rename_game = reg_rename_game, gm_set_deck = reg_set_deck,
      gm_set_player_name = reg_set_player_name,
      gm_set_player_spectator = reg_set_player_spectator, gm_pick_card = reg_pick_card,
      gm_reveal_cards = reg_reveal_cards, gm_end_turn = reg_end_turn\<rparr>"

text \<open>
  A registry holding one session, and two states of a server whose \<open>uuid4\<close> returns 161,
  162 and so on: \<open>server0\<close> before any event, and \<open>server1\<close> where the connection \<open>c1\<close>
  has joined the session as Alice.
\<close>

definition sprint_id :: json where
  "sprint_id = JStr ''00000000-0000-0000-0000-000000000001''"

definition alice_id :: json where
  "alice_id = JStr (uuid_str 161)"

definition sprint :: live_session where
  "sprint =
     \<lparr>s_name = JStr ''Sprint 12'', s_deck = JStr ''fibonacci'', roster = [],
      revealed = False, turn = 0\<rparr>"

definition alice :: participant where
  "alice =
     \<lparr>p_id = alice_id, display_name = JStr ''Alice'', is_spectator = JBool False,
      current_pick = None\<rparr>"

definition one_game :: registry where
  "one_game = \<lparr>live = [(sprint_id, sprint)], created = 1\<rparr>"

definition alice_joins :: event where
  "alice_joins =
     Join (JDict [(''name'', JStr ''Alice''), (''spectator'', JBool False),
                  (''game'', sprint_id)])"

definition server0 :: "registry server" where
  "server0 = initial one_game (\<lambda>n. of_nat (n + 161))"

definition server1 :: "registry server" where
  "server1 =
     \<lparr>sessions = (\<lambda>sid. Map.empty)(''c1'' := [''player_id'' \<mapsto> alice_id, ''game_id'' \<mapsto> sprint_id]),
      rooms = (\<lambda>room. {})(sprint_id := {''c1''}),
      gm = \<lparr>live = [(sprint_id, sprint\<lparr>roster := [alice]\<rparr>)], created = 1\<rparr>,
      outbox = [], entropy = (\<lambda>n. of_nat (n + 161)), uuid_calls = 1\<rparr>"

section \<open>migrate\_database.py: export and import\<close>

subsection \<open>Parsing a UUID\<close>

text \<open>
  \<open>s.replace(old, '')\<close> for a constant \<open>old\<close>, and \<open>s.strip(chars)\<close>.
\<close>

definition str_remove :: "string \<Rightarrow> string \<Rightarrow> string" where
  "str_remove old s = (case str_split old s of Inl e \<Rightarrow> s | Inr ps \<Rightarrow> concat ps)"

definition str_strip :: "string \<Rightarrow> string \<Rightarrow> string" where
  "str_strip chars s =
     rev (dropWhile (\<lambda>c. c \<in> set chars) (rev (dropWhile (\<lambda>c. c \<in> set chars) s)))"

definition hex_value :: "char \<Rightarrow> nat option" where
  "hex_value c =
     (let n = (of_char c :: nat) in
      if 48 \<le> n \<and> n \<le> 57 then Some (n - 48)
      else if 97 \<le> n \<and> n \<le> 102 then Some (n - 87)
      else if 65 \<le> n \<and> n \<le> 70 then Some (n - 55)
      else None)"

fun from_hex :: "string \<Rightarrow> nat \<Rightarrow> nat option" where
  "from_hex [] acc = Some acc"
| "from_hex (c # cs) acc =
     (case hex_value c of None \<Rightarrow> None | Some d \<Rightarrow> from_hex cs (16 * acc + d))"

text \<open>
  \<open>uuid.UUID(hex)\<close>: the prefixes \<open>urn:\<close> and \<open>uuid:\<close>, surrounding braces and the
  hyphens are removed, and what is left must be 32 hexadecimal digits. The digits are
  read by \<open>int(hex, 16)\<close>; the model reads plain digits, and takes for malformed the
  spellings \<open>int\<close> would also read (a sign, blanks around the number, a \<open>0x\<close> prefix,
  underscores between digits), which \<open>str\<close> of a UUID never produces. An argument that is
  not a string raises as well.
\<close>

definition UUID :: "json \<Rightarrow> exn + uuid" where
  "UUID v =
     (case v of
        JStr hex \<Rightarrow>
          (let hex = str_remove ''uuid:'' (str_remove ''urn:'' hex);
               hex = str_remove ''-'' (str_strip ''{}'' hex)
           in if length hex \<noteq> 32
              then Inl (ValueError ''badly formed hexadecimal UUID string'')
              else case from_hex hex 0 of
                None \<Rightarrow> Inl (ValueError ''invalid literal for int() with base 16'')
              | Some n \<Rightarrow> Inr (of_nat n))
      | JNull \<Rightarrow>
          Inl (TypeError ''one of the hex, bytes, bytes_le, fields, or int arguments must be given'')
      | _ \<Rightarrow> Inl (OtherError ''AttributeError'' ''object has no attribute replace''))"

subsection \<open>The table of stored games\<close>






subsection \<open>Export and import\<close>






section \<open>Properties of the environment display\<close>


lemma str_find_skip:
  "c \<notin> set a \<Longrightarrow>
   str_find (c # t) (a @ b) = map_option (\<lambda>i. length a + i) (str_find (c # t) b)"
proof (induction a)
  case Nil
  then show ?case by (simp add: option.map_ident)
next
  case (Cons x a)
  then show ?case by (simp add: option.map_comp comp_def)
qed

lemma str_find_at:
  "c \<notin> set a \<Longrightarrow> str_find (c # t) (a @ (c # t) @ b) = Some (length a)"
  by (simp add: str_find_skip)

lemma str_find_absent: "c \<notin> set s \<Longrightarrow> str_find (c # t) s = None"
  using str_find_skip [of c s t "[]"] by simp

lemma str_split_total: "sep \<noteq> [] \<Longrightarrow> \<exists>ps. str_split sep s = Inr ps"
proof (induction sep s rule: str_split.induct)
  case (1 sep s)
  show ?case
  proof (cases "str_find sep s")
    case None
    with "1.prems" show ?thesis by (subst str_split.simps) simp
  next
    case (Some i)
    with "1.IH" [OF "1.prems" Some] "1.prems" show ?thesis
      by (subst str_split.simps) auto
  qed
qed


















section \<open>Properties of the transport layer\<close>

text \<open>The statements of a handler and the handlers, for unfolding.\<close>

lemmas stmt_defs =
  bind_def ret_def getitem_def session_get_def session_set_def join_room_def
  leave_room_def emit_def uuid4_def call_gm_def

lemmas handler_defs =
  join_def disconnect_def rename_game_def set_deck_def set_player_name_def
  set_spectator_def pick_card_def reveal_cards_def end_turn_def

lemma raise_keeps_outbox:
  "handler G sid ev st = (Inl e, st') \<Longrightarrow> outbox st' = outbox st"
  by (cases ev)
     (auto simp: handler_defs stmt_defs Let_def split: option.splits sum.splits prod.splits)

lemma registry_gm_sel [simp]:
  "gm_create registry_gm = reg_create"
  "gm_join_game registry_gm = reg_join_game"
  "gm_leave_game registry_gm = reg_leave_game"
  "gm_rename_game registry_gm = reg_rename_game"
  "gm_set_deck registry_gm = reg_set_deck"
  "gm_set_player_name registry_gm = reg_set_player_name"
  "gm_set_player_spectator registry_gm = reg_set_player_spectator"
  "gm_pick_card registry_gm = reg_pick_card"
  "gm_reveal_cards registry_gm = reg_reveal_cards"
  "gm_end_turn registry_gm = reg_end_turn"
  by (simp_all add: registry_gm_def)



lemma no_session_raises:
  assumes "sessions st sid ''player_id'' = None"
  shows "pick_card G sid data st = (Inl (KeyError ''player_id''), st)"
  using assms by (simp add: pick_card_def stmt_defs)

lemma pick_card_gm_raises:
  assumes "sessions st sid ''player_id'' = Some player_id"
    and "sessions st sid ''game_id'' = Some game_id"
    and "py_getitem data ''card'' = Inr picked"
    and "gm_pick_card G game_id player_id picked (gm st) = (Inl e, g')"
  shows "pick_card G sid data st = (Inl e, st\<lparr>gm := g'\<rparr>)"
  using assms by (simp add: pick_card_def stmt_defs)

lemmas session_defs =
  on_session_def on_participant_def new_round_def snapshot_def session_info_def
  participant_view_def not_found_def

lemmas concrete_defs =
  server0_def server1_def initial_def one_game_def sprint_id_def alice_id_def
  sprint_def alice_def



lemma stranger_picks:
  "reg_pick_card sprint_id JNull (JStr ''5'') (gm server1) = (Inl not_found, gm server1)"
  by (simp add: reg_pick_card_def on_session_def on_participant_def server1_def alice_def
      alice_id_def)






text \<open>
  Claim C2. When the handler of an event raises \<open>e\<close>, the connection that sent the event is
  answered with the dict of \<open>on_error_handler\<close>: \<open>error\<close> is true, \<open>message\<close> is \<open>str(e)\<close>,
  and \<open>code\<close> is \<open>e.code\<close> for a \<open>PlanningPokerException\<close> and 0 for any other exception.
  Nothing is emitted to any room, and the server goes on from the state the handler left.
\<close>

theorem error_handler_reply:
  assumes "handler G sid ev st = (Inl e, st')"
  shows "dispatch G sid ev st =
     (JDict [(''error'', JBool True), (''message'', JStr (str_exn e)),
             (''code'', case e of PlanningPokerException c m \<Rightarrow> c | _ \<Rightarrow> JInt 0)], st') \<and>
     emitted st st' = []"
  using assms raise_keeps_outbox [OF assms]
  by (cases e) (simp_all add: dispatch_def on_error_handler_def emitted_def)

text \<open>A connection that has not joined picks a card: the \<open>KeyError\<close> is answered with code 0.\<close>

theorem error_handler_reply_witness:
  "dispatch registry_gm ''c2'' (PickCard (JDict [(''card'', JStr ''5'')])) server1 =
     (JDict [(''error'', JBool True), (''message'', JStr [CHR 0x27, CHR ''p'', CHR ''l'',
        CHR ''a'', CHR ''y'', CHR ''e'', CHR ''r'', CHR ''_'', CHR ''i'', CHR ''d'', CHR 0x27]),
        (''code'', JInt 0)], server1) \<and>
   emitted server1 server1 = []"
proof -
  have "sessions server1 ''c2'' ''player_id'' = None" by (simp add: server1_def)
  from no_session_raises [OF this]
  have "handler registry_gm ''c2'' (PickCard (JDict [(''card'', JStr ''5'')])) server1 =
      (Inl (KeyError ''player_id''), server1)"
    by simp
  from error_handler_reply [OF this] show ?thesis by simp
qed







section \<open>Properties of export and import\<close>

lemma hex_value_hex_digit:
  assumes "d < 16"
  shows "hex_value (hex_digit d) = Some d"
proof -
  from assms have "d = 0 \<or> d = 1 \<or> d = 2 \<or> d = 3 \<or> d = 4 \<or> d = 5 \<or> d = 6 \<or> d = 7 \<or>
      d = 8 \<or> d = 9 \<or> d = 10 \<or> d = 11 \<or> d = 12 \<or> d = 13 \<or> d = 14 \<or> d = 15"
    by presburger
  then show ?thesis
    by (elim disjE) (simp_all add: hex_digit_def hex_value_def)
qed

lemma hex_digit_in: "d < 16 \<Longrightarrow> hex_digit d \<in> set ''0123456789abcdef''"
  unfolding hex_digit_def by (rule nth_mem) simp

lemma from_hex_append:
  "from_hex (xs @ ys) acc =
     (case from_hex xs acc of None \<Rightarrow> None | Some a \<Rightarrow> from_hex ys a)"
  by (induction xs arbitrary: acc) (auto split: option.splits)

lemma from_hex_to_hex: "from_hex (to_hex k n) acc = Some (acc * 16 ^ k + n mod 16 ^ k)"
proof (induction k arbitrary: n acc)
  case 0
  then show ?case by simp
next
  case (Suc k)
  have split: "n mod (16 * 16 ^ k) = 16 * (n div 16 mod 16 ^ k) + n mod 16"
    by (rule mod_mult2_eq)
  have "from_hex (to_hex (Suc k) n) acc =
        Some (16 * (acc * 16 ^ k + n div 16 mod 16 ^ k) + n mod 16)"
    by (simp add: from_hex_append Suc.IH hex_value_hex_digit)
  also have "16 * (acc * 16 ^ k + n div 16 mod 16 ^ k) + n mod 16 =
        acc * 16 ^ Suc k + n mod 16 ^ Suc k"
    using split by (simp add: distrib_left mult.assoc mult.left_commute)
  finally show ?case .
qed

lemma length_to_hex [simp]: "length (to_hex k n) = k"
  by (induction k arbitrary: n) simp_all

lemma set_to_hex: "set (to_hex k n) \<subseteq> set ''0123456789abcdef''"
proof (induction k arbitrary: n)
  case 0
  then show ?case by simp
next
  case (Suc k)
  have "hex_digit (n mod 16) \<in> set ''0123456789abcdef''"
    by (rule hex_digit_in) simp
  with Suc.IH [of "n div 16"] show ?case by simp
qed

lemma str_remove_absent: "c \<notin> set s \<Longrightarrow> str_remove (c # t) s = s"
  by (simp add: str_remove_def str_split.simps [of "c # t" s] str_find_absent)

lemma str_remove_sep:
  assumes "c \<notin> set a"
  shows "str_remove [c] (a @ c # b) = a @ str_remove [c] b"
proof -
  have "str_find [c] (a @ c # b) = Some (length a)"
    using str_find_at [OF assms, of "[]" b] by simp
  moreover obtain ps where "str_split [c] b = Inr ps"
    using str_split_total [of "[c]" b] by auto
  ultimately show ?thesis
    by (simp add: str_remove_def str_split.simps [of "[c]" "a @ c # b"])
qed

lemma str_strip_absent:
  assumes "\<forall>c\<in>set s. c \<notin> set chars"
  shows "str_strip chars s = s"
proof -
  have keep: "dropWhile (\<lambda>c. c \<in> set chars) xs = xs" if "\<forall>c\<in>set xs. c \<notin> set chars" for xs
    using that by (cases xs) auto
  from assms have "dropWhile (\<lambda>c. c \<in> set chars) s = s" by (rule keep)
  moreover from assms have "dropWhile (\<lambda>c. c \<in> set chars) (rev s) = rev s"
    by (intro keep) simp
  ultimately show ?thesis by (simp add: str_strip_def)
qed

lemma uuid_hex_props:
  "length (uuid_hex u) = 32" "set (uuid_hex u) \<subseteq> set ''0123456789abcdef''"
  unfolding uuid_hex_def by (rule length_to_hex, rule set_to_hex)

lemma UUID_str: "UUID (JStr (uuid_str u)) = Inr u"
proof -
  let ?h = "uuid_hex u"
  let ?D = "set ''0123456789abcdef''"
  let ?g1 = "take 8 ?h" and ?g2 = "take 4 (drop 8 ?h)" and ?g3 = "take 4 (drop 12 ?h)"
    and ?g4 = "take 4 (drop 16 ?h)" and ?g5 = "drop 20 ?h"
  have digits: "set ?h \<subseteq> ?D" by (rule uuid_hex_props)
  have other: "CHR ''u'' \<notin> ?D" "CHR ''-'' \<notin> ?D" "CHR 0x7B \<notin> ?D" "CHR 0x7D \<notin> ?D"
    by simp_all
  have sub: "set ?g1 \<subseteq> set ?h" "set ?g2 \<subseteq> set ?h" "set ?g3 \<subseteq> set ?h"
    "set ?g4 \<subseteq> set ?h" "set ?g5 \<subseteq> set ?h"
    by (blast dest: in_set_takeD in_set_dropD)+
  have str: "uuid_str u = ?g1 @ CHR ''-'' # ?g2 @ CHR ''-'' # ?g3 @ CHR ''-'' # ?g4 @ CHR ''-'' # ?g5"
    by (simp add: uuid_str_def Let_def)
  have "set (uuid_str u) = insert CHR ''-'' (set ?g1 \<union> set ?g2 \<union> set ?g3 \<union> set ?g4 \<union> set ?g5)"
    unfolding str by (simp add: Un_assoc insert_commute)
  with sub have chars: "set (uuid_str u) \<subseteq> insert CHR ''-'' (set ?h)" by blast
  have whole: "?g1 @ ?g2 @ ?g3 @ ?g4 @ ?g5 = ?h"
  proof -
    have "?g4 @ ?g5 = drop 16 ?h"
      using append_take_drop_id [of 4 "drop 16 ?h"] by simp
    moreover have "?g3 @ drop 16 ?h = drop 12 ?h"
      using append_take_drop_id [of 4 "drop 12 ?h"] by simp
    moreover have "?g2 @ drop 12 ?h = drop 8 ?h"
      using append_take_drop_id [of 4 "drop 8 ?h"] by simp
    moreover have "?g1 @ drop 8 ?h = ?h" by simp
    ultimately show ?thesis by simp
  qed
  have no_u: "CHR ''u'' \<notin> set (uuid_str u)"
    using chars digits other(1) by auto
  have "CHR 0x7B \<notin> set (uuid_str u)" "CHR 0x7D \<notin> set (uuid_str u)"
    using chars digits other(3,4) by auto
  then have no_brace: "\<forall>c\<in>set (uuid_str u). c \<notin> set [CHR 0x7B, CHR 0x7D]"
    by auto
  have no_hyphen: "CHR ''-'' \<notin> set ?g1" "CHR ''-'' \<notin> set ?g2" "CHR ''-'' \<notin> set ?g3"
    "CHR ''-'' \<notin> set ?g4" "CHR ''-'' \<notin> set ?g5"
    using sub digits other(2) by blast+
  have "str_remove ''-'' (uuid_str u) = ?g1 @ ?g2 @ ?g3 @ ?g4 @ ?g5"
    unfolding str
    by (simp only: str_remove_sep [OF no_hyphen(1)] str_remove_sep [OF no_hyphen(2)]
        str_remove_sep [OF no_hyphen(3)] str_remove_sep [OF no_hyphen(4)]
        str_remove_absent [OF no_hyphen(5)])
  with whole have hex: "str_remove ''-'' (uuid_str u) = ?h" by simp
  have "unat u < 2 ^ 128" using unsigned_less [of u] by simp
  moreover have "(16::nat) ^ 32 = 2 ^ 128" by simp
  ultimately have "unat u mod 16 ^ 32 = unat u" by simp
  then have parsed: "from_hex ?h 0 = Some (unat u)"
    unfolding uuid_hex_def by (simp only: from_hex_to_hex) simp
  have strip: "str_strip [CHR 0x7B, CHR 0x7D] (uuid_str u) = uuid_str u"
    by (rule str_strip_absent [OF no_brace])
  have "UUID (JStr (uuid_str u)) =
      (if length ?h \<noteq> 32 then Inl (ValueError ''badly formed hexadecimal UUID string'')
       else case from_hex ?h 0 of
         None \<Rightarrow> Inl (ValueError ''invalid literal for int() with base 16'')
       | Some n \<Rightarrow> Inr (of_nat n))"
    unfolding UUID_def
    by (simp only: json.case str_remove_absent [OF no_u] strip hex Let_def)
  then show ?thesis
    by (simp only: uuid_hex_props(1) parsed) simp
qed

lemma uuid_str_inj:
  assumes "uuid_str u = uuid_str v"
  shows "u = v"
proof -
  have "(Inr u :: exn + uuid) = UUID (JStr (uuid_str u))" by (simp only: UUID_str)
  also have "\<dots> = UUID (JStr (uuid_str v))" by (simp only: assms)
  also have "\<dots> = Inr v" by (rule UUID_str)
  finally show ?thesis by (simp only: sum.inject)
qed







end
